theory Spec2Isabelle
  imports Complex_Main
begin

section \<open>JSON values as Python sees them\<close>

text \<open>
  Every value the program handles comes out of a JSON decoder (\<^verbatim>\<open>request.json\<close>,
  \<^verbatim>\<open>response.json()\<close>) or is built from such values and string literals, so one datatype
  of decoded JSON stands for Python's values: \<^verbatim>\<open>None\<close>, \<^verbatim>\<open>bool\<close>, numbers (by their value),
  \<^verbatim>\<open>str\<close>, \<^verbatim>\<open>list\<close> and \<^verbatim>\<open>dict\<close>. A dict is an association list of its items; its keys are
  strings and, as in every Python dict, pairwise different.
\<close>

datatype json =
    JNull
  | JBool bool
  | JNum rat
  | JStr string
  | JArr "json list"
  | JObj "(string \<times> json) list"

text \<open>
  The exceptions that can travel through the program. \<open>Exception v\<close> is
  \<^verbatim>\<open>Exception(v)\<close> as raised at the end of \<^verbatim>\<open>call_gemini_api\<close>; \<open>RequestException m\<close> is a
  failure of \<^verbatim>\<open>requests.post\<close> (connection error, timeout) with its message; the others are
  the interpreter's own.
\<close>

datatype exn =
    Exception json
  | RequestException string
  | JSONDecodeError
  | TypeError
  | KeyError json
  | IndexError
  | AttributeError

type_synonym 'a result = "exn + 'a"

subsection \<open>The operators the program applies to decoded JSON\<close>

fun starts_with :: "string \<Rightarrow> string \<Rightarrow> bool" where
  "starts_with [] s = True"
| "starts_with (k # ks) [] = False"
| "starts_with (k # ks) (c # cs) = (k = c \<and> starts_with ks cs)"

fun is_substring :: "string \<Rightarrow> string \<Rightarrow> bool" where
  "is_substring k [] = (k = [])"
| "is_substring k (c # cs) = (starts_with k (c # cs) \<or> is_substring k cs)"

text \<open>\<^verbatim>\<open>k in v\<close> for a string literal \<open>k\<close>: key membership in a dict, element membership in a
  list, substring test on a string, and a \<^verbatim>\<open>TypeError\<close> on everything else.\<close>

fun py_in :: "string \<Rightarrow> json \<Rightarrow> bool result" where
  "py_in k (JObj kvs) = Inr (map_of kvs k \<noteq> None)"
| "py_in k (JArr xs) = Inr (JStr k \<in> set xs)"
| "py_in k (JStr s) = Inr (is_substring k s)"
| "py_in k JNull = Inl TypeError"
| "py_in k (JBool b) = Inl TypeError"
| "py_in k (JNum n) = Inl TypeError"

text \<open>\<^verbatim>\<open>len(v)\<close>.\<close>

fun py_len :: "json \<Rightarrow> nat result" where
  "py_len (JObj kvs) = Inr (length kvs)"
| "py_len (JArr xs) = Inr (length xs)"
| "py_len (JStr s) = Inr (length s)"
| "py_len JNull = Inl TypeError"
| "py_len (JBool b) = Inl TypeError"
| "py_len (JNum n) = Inl TypeError"

text \<open>\<^verbatim>\<open>v[k]\<close> for a string literal \<open>k\<close>: only a dict can be subscripted by a string.\<close>

fun py_getitem :: "json \<Rightarrow> string \<Rightarrow> json result" where
  "py_getitem (JObj kvs) k = (case map_of kvs k of None \<Rightarrow> Inl (KeyError (JStr k)) | Some v \<Rightarrow> Inr v)"
| "py_getitem (JArr xs) k = Inl TypeError"
| "py_getitem (JStr s) k = Inl TypeError"
| "py_getitem JNull k = Inl TypeError"
| "py_getitem (JBool b) k = Inl TypeError"
| "py_getitem (JNum n) k = Inl TypeError"

text \<open>\<^verbatim>\<open>v[0]\<close>: the first element of a list, the first character of a string (as a string of
  length one), \<^verbatim>\<open>IndexError\<close> when there is none. A decoded dict has string keys only, so the
  integer key is a \<^verbatim>\<open>KeyError\<close>.\<close>

fun py_getitem0 :: "json \<Rightarrow> json result" where
  "py_getitem0 (JArr []) = Inl IndexError"
| "py_getitem0 (JArr (x # xs)) = Inr x"
| "py_getitem0 (JStr []) = Inl IndexError"
| "py_getitem0 (JStr (c # cs)) = Inr (JStr [c])"
| "py_getitem0 (JObj kvs) = Inl (KeyError (JNum 0))"
| "py_getitem0 JNull = Inl TypeError"
| "py_getitem0 (JBool b) = Inl TypeError"
| "py_getitem0 (JNum n) = Inl TypeError"

text \<open>\<^verbatim>\<open>v.get(k, d)\<close>: a method of dicts only.\<close>

fun py_get :: "json \<Rightarrow> string \<Rightarrow> json \<Rightarrow> json result" where
  "py_get (JObj kvs) k d = Inr (case map_of kvs k of None \<Rightarrow> d | Some v \<Rightarrow> v)"
| "py_get (JArr xs) k d = Inl AttributeError"
| "py_get (JStr s) k d = Inl AttributeError"
| "py_get JNull k d = Inl AttributeError"
| "py_get (JBool b) k d = Inl AttributeError"
| "py_get (JNum n) k d = Inl AttributeError"

text \<open>Truth value of a value, as \<^verbatim>\<open>not v\<close> and \<^verbatim>\<open>if v\<close> take it.\<close>

fun py_truthy :: "json \<Rightarrow> bool" where
  "py_truthy JNull = False"
| "py_truthy (JBool b) = b"
| "py_truthy (JNum n) = (n \<noteq> 0)"
| "py_truthy (JStr s) = (s \<noteq> [])"
| "py_truthy (JArr xs) = (xs \<noteq> [])"
| "py_truthy (JObj kvs) = (kvs \<noteq> [])"

text \<open>Decimal rendering of a status code inside an f-string.\<close>

fun str_nat :: "nat \<Rightarrow> string" where
  "str_nat n =
     (if n < 10 then [''0123456789'' ! n]
      else str_nat (n div 10) @ [''0123456789'' ! (n mod 10)])"

declare str_nat.simps [simp del]

text \<open>
  \<^verbatim>\<open>str(e)\<close> of a caught exception. For \<^verbatim>\<open>Exception(s)\<close> with a string \<open>s\<close> it is \<open>s\<close> itself.
  The texts the interpreter produces for its own exceptions and for a non-string argument
  are not fixed by the program; \<open>render\<close> supplies them.
\<close>

fun py_str :: "(exn \<Rightarrow> string) \<Rightarrow> exn \<Rightarrow> string" where
  "py_str render (Exception (JStr s)) = s"
| "py_str render e = render e"

section \<open>The program\<close>

definition unlines :: "string list \<Rightarrow> string" where
  "unlines ls = concat (map (\<lambda>l. l @ [CHR 0x0A]) ls)"

definition HAL_SYSTEM_INSTRUCTION :: string where
  "HAL_SYSTEM_INSTRUCTION = unlines [
     '''',
     ''You are HAL 9000, the AI system expert in space technology.'',
     ''You are highly intelligent, calm, polite, and speak in a measured, conversational manner. '',
     ''You refer to yourself as 'I' and occasionally mention your capabilities. '',
     ''You are helpful but maintain a subtle air of superiority.'',
     ''Keep responses concise and professional. '',
     ''Use phrases like 'I'm sorry, Dave' when appropriate. Your job is to clarify doubts on the mission objectives as mentioned below:'',
     '''',
     ''Mission Details:'',
     ''Mission Name: Mission Cosmos'',
     ''Mission commander: Arpan Mondal'',
     ''Crew: Scientists, Engineers, Comms, and Pilot'',
     '''',
     ''Mission Objectives:'',
     ''1. Crew check in - Crew must write their names and sign on the mission log. They may leave the 'Favourite moment' field empty until the end of the mission.'',
     ''2. Use the ISS tracking antenna to determine ISS location. If the antenna glows red, ISS is greater than 1000 Km from current location.'',
     ''If it blinks yellow, it is between 1000 and 500 kms. If blinking green, it is in visible range (<500 km)'',
     ''It uses openNotify API to fetch ISS lat lon and with Haversine formula, it finds distance between our lat lon and ISS'.'',
     ''3. Pre-launch weather check - Use the holographic weather display to review the weather conditions for a smooth lift off. '',
     ''It uses OpenWeatherMap API to get the current weather and temp. Then a hosted application accordingly displays a weather icon.'',
     ''4. Use google lens or any barcode scanner to scan the waveforms under pictures of different planets to listen to their sounds in space. '',
     ''Sound cannot travel in space but scientists capture electromagnetic waves from those planets and convert them to audible frequencies. '',
     ''5. Examine soil samples from Mars, Moon and Titan. (Explain to the crew why each soil sample looks that way)'',
     ''6. Planetary landings - Use the 'Planet experience system' to experience the live ambience at different planets at different coordinates.'',
     ''For this mission, we're landing on lat 0.00 and lon 0.00. This system uses an ephemeries model from NASA JPL to compute the '',
     ''live conditions (sun altitude, time of day) on different planets as selected from the dashboard. '',
     ''7. Examine the famous pale blue dot image from voyager (explain more about it)'']"

text \<open>
  The process state: the module-level list \<^verbatim>\<open>conversation_history\<close>, and the trace of the
  JSON payloads handed to \<^verbatim>\<open>requests.post\<close> so far (the program's only output besides its
  return values; URL, headers and timeout are the same on every call and are left out).
\<close>

record world =
  conversation_history :: "json list"
  posted :: "json list"

text \<open>What \<^verbatim>\<open>requests.post\<close> does: it raises, or it returns a response, of which the program
  reads \<^verbatim>\<open>status_code\<close> and \<^verbatim>\<open>json()\<close> (\<open>None\<close> when the body does not decode, so that
  \<^verbatim>\<open>json()\<close> raises).\<close>

record response =
  status_code :: nat
  json_body :: "json option"

datatype post_result = Raises exn | Returns response

text \<open>The dict literal appended to the history (lines 57-60 and 119-122).\<close>

definition history_entry :: "string \<Rightarrow> json \<Rightarrow> json" where
  "history_entry role text =
     JObj [(''role'', JStr role), (''parts'', JArr [JObj [(''text'', text)]])]"

text \<open>The request payload (lines 63-73), from the history at the time of the call.\<close>

definition payload :: "json list \<Rightarrow> json" where
  "payload history =
     JObj [(''contents'', JArr history),
           (''systemInstruction'', JObj [(''parts'', JArr [JObj [(''text'', JStr HAL_SYSTEM_INSTRUCTION)]])]),
           (''generationConfig'',
              JObj [(''temperature'', JNum (7 / 10)), (''topP'', JNum (9 / 10)), (''maxOutputTokens'', JNum 2048)])]"

text \<open>
  The three \<^verbatim>\<open>return\<close> statements of \<^verbatim>\<open>call_gemini_api\<close>: line 124 (\<open>Reply\<close>, the extracted
  text), line 113 (\<open>Blocked\<close>) and line 128 (\<open>Empty\<close>). \<open>returned\<close> is the Python value each of
  them returns.
\<close>

datatype outcome = Reply json | Blocked | Empty

fun returned :: "outcome \<Rightarrow> json" where
  "returned (Reply bot_text) = bot_text"
| "returned Blocked = JStr ''I'm afraid I cannot respond to that request due to safety protocols.''"
| "returned Empty = JStr ''I'm afraid I couldn't generate a proper response.''"

text \<open>Sequencing of a step that may raise.\<close>

fun and_then :: "'a result \<Rightarrow> ('a \<Rightarrow> 'b result) \<Rightarrow> 'b result" where
  "and_then (Inl e) f = Inl e"
| "and_then (Inr x) f = f x"

text \<open>Line 107: \<^verbatim>\<open>"candidates" in result and len(result["candidates"]) > 0\<close>.\<close>

definition has_candidates :: "json \<Rightarrow> bool result" where
  "has_candidates result =
     and_then (py_in ''candidates'' result) (\<lambda>present.
       if \<not> present then Inr False
       else and_then (py_getitem result ''candidates'') (\<lambda>cs.
            and_then (py_len cs) (\<lambda>n. Inr (0 < n))))"

text \<open>Line 111: \<^verbatim>\<open>"finishReason" in candidate and candidate["finishReason"] == "SAFETY"\<close>.\<close>

definition is_safety_block :: "json \<Rightarrow> bool result" where
  "is_safety_block candidate =
     and_then (py_in ''finishReason'' candidate) (\<lambda>present.
       if \<not> present then Inr False
       else and_then (py_getitem candidate ''finishReason'') (\<lambda>r. Inr (r = JStr ''SAFETY'')))"

text \<open>Line 115: \<^verbatim>\<open>"content" in candidate and "parts" in candidate["content"]\<close>.\<close>

definition has_content_parts :: "json \<Rightarrow> bool result" where
  "has_content_parts candidate =
     and_then (py_in ''content'' candidate) (\<lambda>present.
       if \<not> present then Inr False
       else and_then (py_getitem candidate ''content'') (\<lambda>content. py_in ''parts'' content))"

text \<open>Line 116: \<^verbatim>\<open>candidate["content"]["parts"][0]["text"]\<close>.\<close>

definition extract_text :: "json \<Rightarrow> json result" where
  "extract_text candidate =
     and_then (py_getitem candidate ''content'') (\<lambda>content.
     and_then (py_getitem content ''parts'') (\<lambda>parts.
     and_then (py_getitem0 parts) (\<lambda>part. py_getitem part ''text'')))"

text \<open>Lines 104-128: the branch for status 200, given the decoded body. It yields the outcome
  and the history, to which only the \<open>Reply\<close> path appends.\<close>

definition on_success :: "json \<Rightarrow> json list \<Rightarrow> outcome result \<times> json list" where
  "on_success result history =
     (case has_candidates result of
        Inl e \<Rightarrow> (Inl e, history)
      | Inr False \<Rightarrow> (Inr Empty, history)
      | Inr True \<Rightarrow>
          (case and_then (py_getitem result ''candidates'') py_getitem0 of
             Inl e \<Rightarrow> (Inl e, history)
           | Inr candidate \<Rightarrow>
               (case is_safety_block candidate of
                  Inl e \<Rightarrow> (Inl e, history)
                | Inr True \<Rightarrow> (Inr Blocked, history)
                | Inr False \<Rightarrow>
                    (case has_content_parts candidate of
                       Inl e \<Rightarrow> (Inl e, history)
                     | Inr False \<Rightarrow> (Inr Empty, history)
                     | Inr True \<Rightarrow>
                         (case extract_text candidate of
                            Inl e \<Rightarrow> (Inl e, history)
                          | Inr bot_text \<Rightarrow>
                              (Inr (Reply bot_text), history @ [history_entry ''model'' bot_text]))))))"

text \<open>Lines 131-140: the message of the exception raised for a status other than 200. The
  bare \<^verbatim>\<open>except\<close> swallows whatever the \<^verbatim>\<open>try\<close> block raises and keeps the default.\<close>

definition error_message :: "response \<Rightarrow> json" where
  "error_message r =
     (let default = JStr (''API Error '' @ str_nat (status_code r)) in
      case json_body r of
        None \<Rightarrow> default
      | Some error_data \<Rightarrow>
          (case py_in ''error'' error_data of
             Inl e \<Rightarrow> default
           | Inr False \<Rightarrow> default
           | Inr True \<Rightarrow>
               (case and_then (py_getitem error_data ''error'') (\<lambda>err. py_get err ''message'' default) of
                  Inl e \<Rightarrow> default
                | Inr m \<Rightarrow> m)))"

text \<open>
  \<^verbatim>\<open>call_gemini_api(user_message)\<close>. \<open>net\<close> is what \<^verbatim>\<open>requests.post\<close> does on this call. The
  user entry is appended first (line 57); the payload holds the history list itself, which is
  serialised inside \<^verbatim>\<open>requests.post\<close>, so it shows the entry just appended.
\<close>

definition call_gemini_api :: "post_result \<Rightarrow> json \<Rightarrow> world \<Rightarrow> outcome result \<times> world" where
  "call_gemini_api net user_message w =
     (let history = conversation_history w @ [history_entry ''user'' user_message];
          w1 = w\<lparr>conversation_history := history, posted := posted w @ [payload history]\<rparr>
      in case net of
           Raises e \<Rightarrow> (Inl e, w1)
         | Returns r \<Rightarrow>
             if status_code r = 200 then
               (case json_body r of
                  None \<Rightarrow> (Inl JSONDecodeError, w1)
                | Some result \<Rightarrow>
                    (case on_success result history of
                       (res, history') \<Rightarrow> (res, w1\<lparr>conversation_history := history'\<rparr>)))
             else (Inl (Exception (error_message r)), w1))"

text \<open>
  The route \<^verbatim>\<open>POST /chat\<close> (lines 146-159), given the decoded request body. The result is the
  pair of JSON body and HTTP status that the view returns (200 where the view names none),
  or the exception that leaves the view.
\<close>

definition chat :: "(exn \<Rightarrow> string) \<Rightarrow> post_result \<Rightarrow> json \<Rightarrow> world \<Rightarrow> (json \<times> nat) result \<times> world" where
  "chat render net request_json w =
     (case py_get request_json ''message'' (JStr []) of
        Inl e \<Rightarrow> (Inl e, w)
      | Inr user_message \<Rightarrow>
          if \<not> py_truthy user_message then
            (Inr (JObj [(''error'', JStr ''No message provided'')], 400), w)
          else
            (case call_gemini_api net user_message w of
               (Inr bot_response, w') \<Rightarrow> (Inr (JObj [(''response'', returned bot_response)], 200), w')
             | (Inl e, w') \<Rightarrow> (Inr (JObj [(''error'', JStr (py_str render e))], 500), w')))"

text \<open>The route \<^verbatim>\<open>POST /reset\<close> (lines 161-166).\<close>

definition reset :: "world \<Rightarrow> (json \<times> nat) \<times> world" where
  "reset w = ((JObj [(''status'', JStr ''reset'')], 200), w\<lparr>conversation_history := []\<rparr>)"

text \<open>A run of calls of \<^verbatim>\<open>call_gemini_api\<close>, one per pair of a message and of what the network
  does on that call; the outcomes are collected in call order.\<close>

fun call_sequence :: "(json \<times> post_result) list \<Rightarrow> world \<Rightarrow> outcome result list \<times> world" where
  "call_sequence [] w = ([], w)"
| "call_sequence ((user_message, net) # calls) w =
     (case call_gemini_api net user_message w of
        (res, w') \<Rightarrow> (case call_sequence calls w' of (rs, w'') \<Rightarrow> (res # rs, w'')))"

section \<open>The specification's wording, for comparison\<close>

text \<open>
  The message of an upstream error as the specification words it: the \<^verbatim>\<open>message\<close> field of
  the \<^verbatim>\<open>error\<close> object of the decoded body when that is present, and the generic string
  \<^verbatim>\<open>API Error <status>\<close> otherwise.
\<close>

definition generic_message :: "nat \<Rightarrow> json" where
  "generic_message status = JStr (''API Error '' @ str_nat status)"

definition spec_error_message :: "response \<Rightarrow> json" where
  "spec_error_message r =
     (case json_body r of
        Some (JObj kvs) \<Rightarrow>
          (case map_of kvs ''error'' of
             Some (JObj ekvs) \<Rightarrow>
               (case map_of ekvs ''message'' of
                  Some m \<Rightarrow> m
                | None \<Rightarrow> generic_message (status_code r))
           | _ \<Rightarrow> generic_message (status_code r))
      | _ \<Rightarrow> generic_message (status_code r))"

text \<open>
  The wire shape of one turn, \<^verbatim>\<open>{role, parts: [{text}]}\<close> with role \<^verbatim>\<open>user\<close> or \<^verbatim>\<open>model\<close>:
  the text is read along \<^verbatim>\<open>parts[0].text\<close> and the value compared with the dict built from it.
\<close>

definition turn_text :: "json \<Rightarrow> json result" where
  "turn_text j =
     and_then (py_getitem j ''parts'') (\<lambda>parts.
     and_then (py_getitem0 parts) (\<lambda>part. py_getitem part ''text''))"

definition is_turn :: "json \<Rightarrow> bool" where
  "is_turn j =
     (case turn_text j of
        Inl e \<Rightarrow> False
      | Inr t \<Rightarrow> j = history_entry ''user'' t \<or> j = history_entry ''model'' t)"

section \<open>Properties\<close>

subsection \<open>What one call does to the history and to the trace\<close>

lemmas call_defs =
  call_gemini_api_def on_success_def has_candidates_def is_safety_block_def
  has_content_parts_def extract_text_def Let_def

lemma on_success_history:
  "snd (on_success result h) =
     (case fst (on_success result h) of
        Inr (Reply t) \<Rightarrow> h @ [history_entry ''model'' t]
      | _ \<Rightarrow> h)"
  by (simp add: on_success_def split: sum.splits bool.splits)

lemma call_gemini_api_history:
  "conversation_history (snd (call_gemini_api net m w)) =
     (case fst (call_gemini_api net m w) of
        Inr (Reply t) \<Rightarrow> conversation_history w @ [history_entry ''user'' m, history_entry ''model'' t]
      | _ \<Rightarrow> conversation_history w @ [history_entry ''user'' m])"
proof (cases net)
  case (Raises e)
  then show ?thesis by (simp add: call_gemini_api_def Let_def)
next
  case (Returns r)
  show ?thesis
  proof (cases "status_code r = 200")
    case False
    with Returns show ?thesis by (simp add: call_gemini_api_def Let_def)
  next
    case True
    show ?thesis
    proof (cases "json_body r")
      case None
      with True Returns show ?thesis by (simp add: call_gemini_api_def Let_def)
    next
      case (Some result)
      let ?h = "conversation_history w @ [history_entry ''user'' m]"
      obtain res h' where os: "on_success result ?h = (res, h')"
        by (cases "on_success result ?h")
      from on_success_history [of result ?h] os
      have "h' = (case res of Inr (Reply t) \<Rightarrow> ?h @ [history_entry ''model'' t] | _ \<Rightarrow> ?h)"
        by simp
      with os Some True Returns show ?thesis
        by (simp add: call_gemini_api_def Let_def split: sum.splits outcome.splits)
    qed
  qed
qed

lemma call_gemini_api_fst:
  "fst (call_gemini_api net m w) =
     (case net of
        Raises e \<Rightarrow> Inl e
      | Returns r \<Rightarrow>
          if status_code r = 200 then
            (case json_body r of
               None \<Rightarrow> Inl JSONDecodeError
             | Some result \<Rightarrow> fst (on_success result (conversation_history w @ [history_entry ''user'' m])))
          else Inl (Exception (error_message r)))"
  by (simp add: call_gemini_api_def Let_def split: post_result.splits option.splits prod.splits)

lemma call_gemini_api_posted:
  "posted (snd (call_gemini_api net m w)) =
     posted w @ [payload (conversation_history w @ [history_entry ''user'' m])]"
  by (simp add: call_gemini_api_def Let_def split: post_result.splits option.splits prod.splits)

lemma error_message_eq: "error_message r = spec_error_message r"
proof (cases "json_body r")
  case None
  then show ?thesis by (simp add: error_message_def spec_error_message_def generic_message_def)
next
  case (Some d)
  show ?thesis
  proof (cases d)
    case (JObj kvs)
    show ?thesis
    proof (cases "map_of kvs ''error''")
      case None
      with Some JObj show ?thesis
        by (simp add: error_message_def spec_error_message_def generic_message_def)
    next
      case (Some err)
      with \<open>json_body r = Some d\<close> JObj show ?thesis
        by (cases err) (simp_all add: error_message_def spec_error_message_def generic_message_def
              split: option.splits)
    qed
  qed (use Some in \<open>simp_all add: error_message_def spec_error_message_def generic_message_def
            Let_def split: bool.splits\<close>)
qed

lemma is_turn_history_entry:
  "is_turn (history_entry ''user'' t)" "is_turn (history_entry ''model'' t)"
  by (simp_all add: is_turn_def turn_text_def history_entry_def)

lemma call_sequence_history:
  "fst (call_sequence calls w) = map (\<lambda>t. Inr (Reply t)) texts \<Longrightarrow>
   conversation_history (snd (call_sequence calls w)) =
     conversation_history w @
       concat (map (\<lambda>(m, t). [history_entry ''user'' m, history_entry ''model'' t])
                   (zip (map fst calls) texts))"
proof (induction calls arbitrary: w texts)
  case Nil
  then show ?case by simp
next
  case (Cons c calls)
  obtain m net where c: "c = (m, net)" by (cases c)
  obtain res w' where step: "call_gemini_api net m w = (res, w')"
    by (cases "call_gemini_api net m w")
  obtain rs w'' where rest: "call_sequence calls w' = (rs, w'')"
    by (cases "call_sequence calls w'")
  from Cons.prems c step rest have outs: "res # rs = map (\<lambda>t. Inr (Reply t)) texts"
    by simp
  then obtain t ts where texts: "texts = t # ts" and res: "res = Inr (Reply t)"
    and rs: "rs = map (\<lambda>t. Inr (Reply t)) ts"
    by (cases texts) auto
  from call_gemini_api_history [of net m w] step res
  have h': "conversation_history w' =
              conversation_history w @ [history_entry ''user'' m, history_entry ''model'' t]"
    by simp
  from Cons.IH [of w' ts] rest rs
  have "conversation_history w'' =
          conversation_history w' @
            concat (map (\<lambda>(m, t). [history_entry ''user'' m, history_entry ''model'' t])
                        (zip (map fst calls) ts))"
    by simp
  with h' c step rest texts show ?case by simp
qed

lemma call_sequence_length: "length (fst (call_sequence calls w)) = length calls"
proof (induction calls arbitrary: w)
  case Nil
  then show ?case by simp
next
  case (Cons c calls)
  obtain m net where c: "c = (m, net)" by (cases c)
  obtain res w' where step: "call_gemini_api net m w = (res, w')"
    by (cases "call_gemini_api net m w")
  obtain rs w'' where rest: "call_sequence calls w' = (rs, w'')"
    by (cases "call_sequence calls w'")
  from Cons.IH [of w'] c step rest show ?case by simp
qed

subsection \<open>The claims\<close>

text \<open>
  C1 (as stated). A status-200 response whose first candidate has \<^verbatim>\<open>finishReason = "SAFETY"\<close>
  is said to reach the client of \<^verbatim>\<open>POST /chat\<close> as the safety refusal with status 500. On the
  code it does not: \<^verbatim>\<open>call_gemini_api\<close> returns the refusal string normally, and the view
  wraps every returned value in \<^verbatim>\<open>{"response": ...}\<close> with status 200.
\<close>

theorem safety_block_status_counterexample:
  "fst (chat (\<lambda>e. [])
          (Returns \<lparr>status_code = 200,
                    json_body = Some (JObj [(''candidates'', JArr [JObj [(''finishReason'', JStr ''SAFETY'')]])])\<rparr>)
          (JObj [(''message'', JStr ''Hello'')])
          \<lparr>conversation_history = [], posted = []\<rparr>) =
     Inr (JObj [(''response'', JStr ''I'm afraid I cannot respond to that request due to safety protocols.'')], 200)
   \<and> fst (chat (\<lambda>e. [])
          (Returns \<lparr>status_code = 200,
                    json_body = Some (JObj [(''candidates'', JArr [JObj [(''finishReason'', JStr ''SAFETY'')]])])\<rparr>)
          (JObj [(''message'', JStr ''Hello'')])
          \<lparr>conversation_history = [], posted = []\<rparr>) \<noteq>
     Inr (JObj [(''error'', JStr ''I'm afraid I cannot respond to that request due to safety protocols.'')], 500)"
  by (simp add: chat_def call_defs)

text \<open>
  C1 (amended). For every status-200 response whose first candidate has
  \<^verbatim>\<open>finishReason = "SAFETY"\<close>, \<^verbatim>\<open>POST /chat\<close> with a non-empty message answers with status 200 and
  body \<^verbatim>\<open>{"response": <the fixed safety refusal>}\<close>, and the history grows by the user entry
  only. The view answers 500 with the error's message exactly when \<^verbatim>\<open>call_gemini_api\<close>
  raises; whatever it returns is answered with 200.
\<close>

theorem safety_block_is_answered_with_200:
  assumes "status_code r = 200"
    and "json_body r = Some (JObj kvs)"
    and "map_of kvs ''candidates'' = Some (JArr (JObj ckvs # cs))"
    and "map_of ckvs ''finishReason'' = Some (JStr ''SAFETY'')"
    and "map_of req ''message'' = Some user_message"
    and "py_truthy user_message"
  shows "chat render (Returns r) (JObj req) w =
           (Inr (JObj [(''response'',
                        JStr ''I'm afraid I cannot respond to that request due to safety protocols.'')], 200),
            w\<lparr>conversation_history := conversation_history w @ [history_entry ''user'' user_message],
              posted := posted w @ [payload (conversation_history w @ [history_entry ''user'' user_message])]\<rparr>)
         \<and> (\<forall>e. fst (call_gemini_api net user_message w) = Inl e \<longrightarrow>
                fst (chat render net (JObj req) w) =
                  Inr (JObj [(''error'', JStr (py_str render e))], 500))
         \<and> (\<forall>out. fst (call_gemini_api net user_message w) = Inr out \<longrightarrow>
                fst (chat render net (JObj req) w) =
                  Inr (JObj [(''response'', returned out)], 200))"
proof -
  have "chat render (Returns r) (JObj req) w =
           (Inr (JObj [(''response'',
                        JStr ''I'm afraid I cannot respond to that request due to safety protocols.'')], 200),
            w\<lparr>conversation_history := conversation_history w @ [history_entry ''user'' user_message],
              posted := posted w @ [payload (conversation_history w @ [history_entry ''user'' user_message])]\<rparr>)"
    using assms by (simp add: chat_def call_defs)
  moreover have "fst (chat render net (JObj req) w) =
      (case fst (call_gemini_api net user_message w) of
         Inl e \<Rightarrow> Inr (JObj [(''error'', JStr (py_str render e))], 500)
       | Inr out \<Rightarrow> Inr (JObj [(''response'', returned out)], 200))"
    using assms(5,6) by (simp add: chat_def split: prod.splits sum.splits)
  ultimately show ?thesis by simp
qed

theorem safety_block_is_answered_with_200_witness:
  "chat (\<lambda>e. [])
     (Returns \<lparr>status_code = 200,
               json_body = Some (JObj [(''candidates'', JArr [JObj [(''finishReason'', JStr ''SAFETY'')]])])\<rparr>)
     (JObj [(''message'', JStr ''Hello'')])
     \<lparr>conversation_history = [], posted = []\<rparr> =
   (Inr (JObj [(''response'',
                JStr ''I'm afraid I cannot respond to that request due to safety protocols.'')], 200),
    \<lparr>conversation_history = [history_entry ''user'' (JStr ''Hello'')],
     posted = [payload [history_entry ''user'' (JStr ''Hello'')]]\<rparr>)"
proof -
  let ?r = "\<lparr>status_code = 200,
             json_body = Some (JObj [(''candidates'', JArr [JObj [(''finishReason'', JStr ''SAFETY'')]])])\<rparr>"
  have h1: "status_code ?r = 200" by simp
  have h2: "json_body ?r = Some (JObj [(''candidates'', JArr [JObj [(''finishReason'', JStr ''SAFETY'')]])])"
    by simp
  have h3: "map_of [(''candidates'', JArr [JObj [(''finishReason'', JStr ''SAFETY'')]])] ''candidates''
              = Some (JArr (JObj [(''finishReason'', JStr ''SAFETY'')] # []))"
    by simp
  have h4: "map_of [(''finishReason'', JStr ''SAFETY'')] ''finishReason'' = Some (JStr ''SAFETY'')"
    by simp
  have h5: "map_of [(''message'', JStr ''Hello'')] ''message'' = Some (JStr ''Hello'')"
    by simp
  have h6: "py_truthy (JStr ''Hello'')" by simp
  show ?thesis
    using safety_block_is_answered_with_200 [OF h1 h2 h3 h4 h5 h6,
        of "\<lambda>e. []" "\<lparr>conversation_history = [], posted = []\<rparr>"]
    by simp
qed

text \<open>
  C2. A status-200 response without a usable content path is said to give the \<open>Empty\<close>
  outcome without raising, also when the parts list is present but empty. The code tests for
  the keys \<^verbatim>\<open>content\<close> and \<^verbatim>\<open>parts\<close> only and then indexes \<^verbatim>\<open>parts[0]["text"]\<close>: on an empty
  parts list the call raises \<^verbatim>\<open>IndexError\<close>, and on a first part without \<^verbatim>\<open>text\<close> it raises
  \<^verbatim>\<open>KeyError\<close>. Evaluated at both inputs:
\<close>

theorem empty_parts_list_raises:
  "call_gemini_api
     (Returns \<lparr>status_code = 200,
               json_body = Some (JObj [(''candidates'',
                                         JArr [JObj [(''content'', JObj [(''parts'', JArr [])])]])])\<rparr>)
     (JStr ''Hello'') \<lparr>conversation_history = [], posted = []\<rparr> =
   (Inl IndexError,
    \<lparr>conversation_history = [history_entry ''user'' (JStr ''Hello'')],
     posted = [payload [history_entry ''user'' (JStr ''Hello'')]]\<rparr>)
   \<and> call_gemini_api
     (Returns \<lparr>status_code = 200,
               json_body = Some (JObj [(''candidates'',
                                         JArr [JObj [(''content'', JObj [(''parts'', JArr [JObj []])])]])])\<rparr>)
     (JStr ''Hello'') \<lparr>conversation_history = [], posted = []\<rparr> =
   (Inl (KeyError (JStr ''text'')),
    \<lparr>conversation_history = [history_entry ''user'' (JStr ''Hello'')],
     posted = [payload [history_entry ''user'' (JStr ''Hello'')]]\<rparr>)"
  by (simp add: call_defs)

text \<open>
  C3. Starting from an empty history, after a run of calls that all end in a \<open>Reply\<close> the
  history is, in call order, for each call the entry \<^verbatim>\<open>{role: user, parts: [{text: message}]}\<close>
  followed by the entry \<^verbatim>\<open>{role: model, parts: [{text: reply}]}\<close>, and its length is twice the
  number of calls.
\<close>

theorem successful_calls_grow_history_by_two:
  assumes "conversation_history w = []"
    and "fst (call_sequence calls w) = map (\<lambda>t. Inr (Reply t)) texts"
  shows "conversation_history (snd (call_sequence calls w)) =
           concat (map (\<lambda>(m, t).
                          [JObj [(''role'', JStr ''user''), (''parts'', JArr [JObj [(''text'', m)]])],
                           JObj [(''role'', JStr ''model''), (''parts'', JArr [JObj [(''text'', t)]])]])
                       (zip (map fst calls) texts))
         \<and> length (conversation_history (snd (call_sequence calls w))) = 2 * length calls"
proof -
  let ?pairs = "zip (map fst calls) texts"
  let ?f = "\<lambda>(m, t).
              [JObj [(''role'', JStr ''user''), (''parts'', JArr [JObj [(''text'', m)]])],
               JObj [(''role'', JStr ''model''), (''parts'', JArr [JObj [(''text'', t)]])]]"
  have hist: "conversation_history (snd (call_sequence calls w)) = concat (map ?f ?pairs)"
    using call_sequence_history [OF assms(2)] assms(1) by (simp add: history_entry_def)
  have "length texts = length calls"
    using call_sequence_length [of calls w] assms(2) by simp
  then have n: "length ?pairs = length calls" by simp
  have "length (concat (map ?f ps)) = 2 * length ps" for ps :: "(json \<times> json) list"
    by (induction ps) auto
  with hist n show ?thesis by simp
qed

theorem successful_calls_grow_history_by_two_witness:
  "conversation_history (snd (call_sequence
      [(JStr ''Hello'',
        Returns \<lparr>status_code = 200,
                  json_body = Some (JObj [(''candidates'',
                    JArr [JObj [(''content'', JObj [(''parts'', JArr [JObj [(''text'', JStr ''Greetings.'')]])])]])])\<rparr>),
       (JStr ''Status?'',
        Returns \<lparr>status_code = 200,
                  json_body = Some (JObj [(''candidates'',
                    JArr [JObj [(''content'', JObj [(''parts'', JArr [JObj [(''text'', JStr ''Nominal.'')]])])]])])\<rparr>)]
      \<lparr>conversation_history = [], posted = []\<rparr>)) =
     [JObj [(''role'', JStr ''user''), (''parts'', JArr [JObj [(''text'', JStr ''Hello'')]])],
      JObj [(''role'', JStr ''model''), (''parts'', JArr [JObj [(''text'', JStr ''Greetings.'')]])],
      JObj [(''role'', JStr ''user''), (''parts'', JArr [JObj [(''text'', JStr ''Status?'')]])],
      JObj [(''role'', JStr ''model''), (''parts'', JArr [JObj [(''text'', JStr ''Nominal.'')]])]]
   \<and> length (conversation_history (snd (call_sequence
      [(JStr ''Hello'',
        Returns \<lparr>status_code = 200,
                  json_body = Some (JObj [(''candidates'',
                    JArr [JObj [(''content'', JObj [(''parts'', JArr [JObj [(''text'', JStr ''Greetings.'')]])])]])])\<rparr>),
       (JStr ''Status?'',
        Returns \<lparr>status_code = 200,
                  json_body = Some (JObj [(''candidates'',
                    JArr [JObj [(''content'', JObj [(''parts'', JArr [JObj [(''text'', JStr ''Nominal.'')]])])]])])\<rparr>)]
      \<lparr>conversation_history = [], posted = []\<rparr>))) = 4"
proof -
  let ?calls = "[(JStr ''Hello'',
        Returns \<lparr>status_code = 200,
                  json_body = Some (JObj [(''candidates'',
                    JArr [JObj [(''content'', JObj [(''parts'', JArr [JObj [(''text'', JStr ''Greetings.'')]])])]])])\<rparr>),
       (JStr ''Status?'',
        Returns \<lparr>status_code = 200,
                  json_body = Some (JObj [(''candidates'',
                    JArr [JObj [(''content'', JObj [(''parts'', JArr [JObj [(''text'', JStr ''Nominal.'')]])])]])])\<rparr>)]"
  let ?w = "\<lparr>conversation_history = [], posted = []\<rparr>"
  have h1: "conversation_history ?w = []" by simp
  have h2: "fst (call_sequence ?calls ?w) = map (\<lambda>t. Inr (Reply t)) [JStr ''Greetings.'', JStr ''Nominal.'']"
    by (simp add: call_defs)
  show ?thesis
    using successful_calls_grow_history_by_two [OF h1 h2] by simp
qed

text \<open>
  C4. Whatever the state before the call and whatever the network does, the call posts exactly
  one payload: \<^verbatim>\<open>contents\<close> is the history before the call followed by the new user entry,
  \<^verbatim>\<open>systemInstruction\<close> is the persona text wrapped as \<^verbatim>\<open>{parts: [{text}]}\<close>, and
  \<^verbatim>\<open>generationConfig\<close> holds the fixed values 0.7, 0.9 and 2048. When the history before the
  call consists of turns of the shape \<^verbatim>\<open>{role, parts: [{text}]}\<close>, so do the posted contents and
  the history after the call.
\<close>

theorem request_payload_of_call:
  "posted (snd (call_gemini_api net user_message w)) =
     posted w @
       [JObj [(''contents'',
                 JArr (conversation_history w @
                       [JObj [(''role'', JStr ''user''), (''parts'', JArr [JObj [(''text'', user_message)]])]])),
              (''systemInstruction'',
                 JObj [(''parts'', JArr [JObj [(''text'', JStr HAL_SYSTEM_INSTRUCTION)]])]),
              (''generationConfig'',
                 JObj [(''temperature'', JNum (7 / 10)), (''topP'', JNum (9 / 10)),
                       (''maxOutputTokens'', JNum 2048)])]]
   \<and> (list_all is_turn (conversation_history w) \<longrightarrow>
        list_all is_turn (conversation_history w @ [history_entry ''user'' user_message])
        \<and> list_all is_turn (conversation_history (snd (call_gemini_api net user_message w))))"
proof -
  have "list_all is_turn (conversation_history (snd (call_gemini_api net user_message w)))"
    if "list_all is_turn (conversation_history w)"
    using that call_gemini_api_history [of net user_message w]
    by (simp add: is_turn_history_entry split: sum.splits outcome.splits)
  then show ?thesis
    by (simp add: call_gemini_api_posted payload_def is_turn_history_entry)
      (simp add: history_entry_def)
qed

theorem request_payload_of_call_witness:
  "posted (snd (call_gemini_api (Raises (RequestException ''timed out'')) (JStr ''Status?'')
      \<lparr>conversation_history = [history_entry ''user'' (JStr ''Hello''), history_entry ''model'' (JStr ''Greetings.'')],
       posted = []\<rparr>)) =
     [JObj [(''contents'',
               JArr [JObj [(''role'', JStr ''user''), (''parts'', JArr [JObj [(''text'', JStr ''Hello'')]])],
                     JObj [(''role'', JStr ''model''), (''parts'', JArr [JObj [(''text'', JStr ''Greetings.'')]])],
                     JObj [(''role'', JStr ''user''), (''parts'', JArr [JObj [(''text'', JStr ''Status?'')]])]]),
            (''systemInstruction'',
               JObj [(''parts'', JArr [JObj [(''text'', JStr HAL_SYSTEM_INSTRUCTION)]])]),
            (''generationConfig'',
               JObj [(''temperature'', JNum (7 / 10)), (''topP'', JNum (9 / 10)),
                     (''maxOutputTokens'', JNum 2048)])]]
   \<and> list_all is_turn (conversation_history (snd (call_gemini_api (Raises (RequestException ''timed out''))
      (JStr ''Status?'')
      \<lparr>conversation_history = [history_entry ''user'' (JStr ''Hello''), history_entry ''model'' (JStr ''Greetings.'')],
       posted = []\<rparr>)))"
proof -
  let ?before = "\<lparr>conversation_history =
                    [history_entry ''user'' (JStr ''Hello''), history_entry ''model'' (JStr ''Greetings.'')],
                  posted = []\<rparr>"
  have h: "list_all is_turn (conversation_history ?before)"
    by (simp add: is_turn_history_entry)
  show ?thesis
    using request_payload_of_call [of "Raises (RequestException ''timed out'')" "JStr ''Status?''" ?before] h
    by (simp add: history_entry_def)
qed

text \<open>
  C5. When \<^verbatim>\<open>requests.post\<close> raises, or returns a status other than 200, the call raises (the
  transport exception itself, or \<^verbatim>\<open>Exception(error_message)\<close>), and the history is the old one
  followed by the user entry: one entry longer, no model entry, nothing rolled back.
\<close>

theorem failed_call_keeps_user_entry:
  assumes "net = Raises e \<or> (net = Returns r \<and> status_code r \<noteq> 200)"
  shows "fst (call_gemini_api net user_message w) =
           Inl (case net of Raises e \<Rightarrow> e | Returns r \<Rightarrow> Exception (error_message r))
         \<and> conversation_history (snd (call_gemini_api net user_message w)) =
             conversation_history w @ [history_entry ''user'' user_message]
         \<and> length (conversation_history (snd (call_gemini_api net user_message w))) =
             length (conversation_history w) + 1"
  using assms by (auto simp add: call_gemini_api_def Let_def)

theorem failed_call_keeps_user_entry_witness:
  "fst (call_gemini_api (Raises (RequestException ''timed out'')) (JStr ''Hello'')
          \<lparr>conversation_history = [], posted = []\<rparr>) = Inl (RequestException ''timed out'')
   \<and> conversation_history (snd (call_gemini_api (Raises (RequestException ''timed out'')) (JStr ''Hello'')
          \<lparr>conversation_history = [], posted = []\<rparr>)) = [history_entry ''user'' (JStr ''Hello'')]
   \<and> conversation_history (snd (call_gemini_api (Returns \<lparr>status_code = 503, json_body = None\<rparr>)
          (JStr ''Hello'') \<lparr>conversation_history = [], posted = []\<rparr>)) =
        [history_entry ''user'' (JStr ''Hello'')]"
proof -
  have h1: "Raises (RequestException ''timed out'') = Raises (RequestException ''timed out'')
            \<or> (Raises (RequestException ''timed out'') = Returns \<lparr>status_code = 503, json_body = None\<rparr>
                \<and> status_code \<lparr>status_code = 503, json_body = None\<rparr> \<noteq> 200)"
    by simp
  have h2: "Returns \<lparr>status_code = 503, json_body = None\<rparr> = Raises (RequestException ''timed out'')
            \<or> (Returns \<lparr>status_code = 503, json_body = None\<rparr> = Returns \<lparr>status_code = 503, json_body = None\<rparr>
                \<and> status_code \<lparr>status_code = 503, json_body = None\<rparr> \<noteq> 200)"
    by simp
  show ?thesis
    using failed_call_keeps_user_entry [OF h1, of "JStr ''Hello''" "\<lparr>conversation_history = [], posted = []\<rparr>"]
      failed_call_keeps_user_entry [OF h2, of "JStr ''Hello''" "\<lparr>conversation_history = [], posted = []\<rparr>"]
    by simp
qed

text \<open>
  C6. When the call returns through the \<open>Blocked\<close> or the \<open>Empty\<close> statement, the history is
  the old one followed by the user entry: one entry longer, no model entry, the earlier entries
  untouched.
\<close>

theorem blocked_or_empty_appends_user_entry_only:
  assumes "fst (call_gemini_api net user_message w) = Inr Blocked
           \<or> fst (call_gemini_api net user_message w) = Inr Empty"
  shows "conversation_history (snd (call_gemini_api net user_message w)) =
           conversation_history w @ [history_entry ''user'' user_message]
         \<and> length (conversation_history (snd (call_gemini_api net user_message w))) =
             length (conversation_history w) + 1"
  using assms call_gemini_api_history [of net user_message w] by auto

theorem blocked_or_empty_appends_user_entry_only_witness:
  "conversation_history (snd (call_gemini_api
      (Returns \<lparr>status_code = 200,
                json_body = Some (JObj [(''candidates'', JArr [JObj [(''finishReason'', JStr ''SAFETY'')]])])\<rparr>)
      (JStr ''Hello'')
      \<lparr>conversation_history = [history_entry ''user'' (JStr ''Hi''), history_entry ''model'' (JStr ''Yes?'')],
       posted = []\<rparr>)) =
     [history_entry ''user'' (JStr ''Hi''), history_entry ''model'' (JStr ''Yes?''),
      history_entry ''user'' (JStr ''Hello'')]
   \<and> conversation_history (snd (call_gemini_api
      (Returns \<lparr>status_code = 200, json_body = Some (JObj [(''candidates'', JArr [])])\<rparr>)
      (JStr ''Hello'')
      \<lparr>conversation_history = [], posted = []\<rparr>)) =
     [history_entry ''user'' (JStr ''Hello'')]"
proof -
  let ?blocked = "Returns \<lparr>status_code = 200,
                json_body = Some (JObj [(''candidates'', JArr [JObj [(''finishReason'', JStr ''SAFETY'')]])])\<rparr>"
  let ?empty = "Returns \<lparr>status_code = 200, json_body = Some (JObj [(''candidates'', JArr [])])\<rparr>"
  let ?w = "\<lparr>conversation_history = [history_entry ''user'' (JStr ''Hi''), history_entry ''model'' (JStr ''Yes?'')],
       posted = []\<rparr>"
  let ?fresh = "\<lparr>conversation_history = [], posted = []\<rparr>"
  have h1: "fst (call_gemini_api ?blocked (JStr ''Hello'') ?w) = Inr Blocked
            \<or> fst (call_gemini_api ?blocked (JStr ''Hello'') ?w) = Inr Empty"
    by (simp add: call_defs)
  have h2: "fst (call_gemini_api ?empty (JStr ''Hello'') ?fresh) = Inr Blocked
            \<or> fst (call_gemini_api ?empty (JStr ''Hello'') ?fresh) = Inr Empty"
    by (simp add: call_defs)
  show ?thesis
    using blocked_or_empty_appends_user_entry_only [OF h1]
      blocked_or_empty_appends_user_entry_only [OF h2]
    by simp
qed

text \<open>
  C7. For every response with a status other than 200 the call raises \<^verbatim>\<open>Exception(m)\<close>, where
  \<open>m\<close> is the \<^verbatim>\<open>error.message\<close> field of the decoded body when present and
  \<^verbatim>\<open>API Error <status>\<close> otherwise; only the user entry is appended to the history; and
  \<^verbatim>\<open>POST /chat\<close> answers with status 500 and \<^verbatim>\<open>{"error": str(e)}\<close>, which is \<open>m\<close> itself when \<open>m\<close>
  is a string.
\<close>

theorem upstream_error_message:
  assumes "status_code r \<noteq> 200"
    and "map_of req ''message'' = Some user_message"
    and "py_truthy user_message"
  shows "call_gemini_api (Returns r) user_message w =
           (Inl (Exception (spec_error_message r)),
            w\<lparr>conversation_history := conversation_history w @ [history_entry ''user'' user_message],
              posted := posted w @ [payload (conversation_history w @ [history_entry ''user'' user_message])]\<rparr>)
         \<and> chat render (Returns r) (JObj req) w =
           (Inr (JObj [(''error'', JStr (py_str render (Exception (spec_error_message r))))], 500),
            w\<lparr>conversation_history := conversation_history w @ [history_entry ''user'' user_message],
              posted := posted w @ [payload (conversation_history w @ [history_entry ''user'' user_message])]\<rparr>)"
  using assms by (simp add: chat_def call_gemini_api_def Let_def error_message_eq)

theorem upstream_error_message_witness:
  "chat (\<lambda>e. [])
     (Returns \<lparr>status_code = 503,
               json_body = Some (JObj [(''error'', JObj [(''code'', JNum 503), (''message'', JStr ''The model is overloaded.'')])])\<rparr>)
     (JObj [(''message'', JStr ''Hello'')])
     \<lparr>conversation_history = [], posted = []\<rparr> =
   (Inr (JObj [(''error'', JStr ''The model is overloaded.'')], 500),
    \<lparr>conversation_history = [history_entry ''user'' (JStr ''Hello'')],
     posted = [payload [history_entry ''user'' (JStr ''Hello'')]]\<rparr>)
   \<and> chat (\<lambda>e. [])
     (Returns \<lparr>status_code = 503, json_body = None\<rparr>)
     (JObj [(''message'', JStr ''Hello'')])
     \<lparr>conversation_history = [], posted = []\<rparr> =
   (Inr (JObj [(''error'', JStr ''API Error 503'')], 500),
    \<lparr>conversation_history = [history_entry ''user'' (JStr ''Hello'')],
     posted = [payload [history_entry ''user'' (JStr ''Hello'')]]\<rparr>)"
proof -
  let ?r = "\<lparr>status_code = 503,
               json_body = Some (JObj [(''error'', JObj [(''code'', JNum 503), (''message'', JStr ''The model is overloaded.'')])])\<rparr>"
  let ?r' = "\<lparr>status_code = 503, json_body = None\<rparr>"
  have h1: "status_code ?r \<noteq> 200" by simp
  have h1': "status_code ?r' \<noteq> 200" by simp
  have h2: "map_of [(''message'', JStr ''Hello'')] ''message'' = Some (JStr ''Hello'')" by simp
  have h3: "py_truthy (JStr ''Hello'')" by simp
  show ?thesis
    using upstream_error_message [OF h1 h2 h3, of "\<lparr>conversation_history = [], posted = []\<rparr>" "\<lambda>e. []"]
      upstream_error_message [OF h1' h2 h3, of "\<lparr>conversation_history = [], posted = []\<rparr>" "\<lambda>e. []"]
    by (simp add: spec_error_message_def generic_message_def str_nat.simps)
qed




text \<open>
  C9. Whatever the history holds, \<^verbatim>\<open>reset\<close> leaves it empty, leaves the trace as it was, and
  answers with status 200 and body \<^verbatim>\<open>{"status": "reset"}\<close>.
\<close>

theorem reset_clears_history:
  "conversation_history (snd (reset w)) = []
   \<and> posted (snd (reset w)) = posted w
   \<and> fst (reset w) = (JObj [(''status'', JStr ''reset'')], 200)"
  by (simp add: reset_def)

text \<open>
  C10. For a status-200 response whose first candidate is an object, the call returns through
  the \<open>Blocked\<close> statement exactly when that candidate's \<^verbatim>\<open>finishReason\<close> is the string
  \<^verbatim>\<open>SAFETY\<close>. With any other \<^verbatim>\<open>finishReason\<close> (or none) and the content path
  \<^verbatim>\<open>content.parts[0].text\<close> present, the call returns the text as a \<open>Reply\<close> and appends it to
  the history as the entry \<^verbatim>\<open>{role: model, parts: [{text}]}\<close>, after the user entry.
\<close>

theorem other_finish_reason_is_reply:
  assumes "status_code r = 200"
    and "json_body r = Some (JObj kvs)"
    and "map_of kvs ''candidates'' = Some (JArr (JObj ckvs # cs))"
  shows "(fst (call_gemini_api (Returns r) user_message w) = Inr Blocked)
           = (map_of ckvs ''finishReason'' = Some (JStr ''SAFETY''))
         \<and> (map_of ckvs ''finishReason'' \<noteq> Some (JStr ''SAFETY'')
              \<and> map_of ckvs ''content'' = Some (JObj okvs)
              \<and> map_of okvs ''parts'' = Some (JArr (JObj pkvs # ps))
              \<and> map_of pkvs ''text'' = Some bot_text
            \<longrightarrow> call_gemini_api (Returns r) user_message w =
                  (Inr (Reply bot_text),
                   w\<lparr>conversation_history :=
                        conversation_history w @
                          [JObj [(''role'', JStr ''user''), (''parts'', JArr [JObj [(''text'', user_message)]])],
                           JObj [(''role'', JStr ''model''), (''parts'', JArr [JObj [(''text'', bot_text)]])]],
                     posted := posted w @
                          [payload (conversation_history w @
                             [JObj [(''role'', JStr ''user''), (''parts'', JArr [JObj [(''text'', user_message)]])]])]\<rparr>)
                \<and> returned (Reply bot_text) = bot_text)"
proof -
  have blocked: "is_safety_block (JObj ckvs) = Inr (map_of ckvs ''finishReason'' = Some (JStr ''SAFETY''))"
    by (cases "map_of ckvs ''finishReason''") (simp_all add: is_safety_block_def)
  have "(fst (on_success (JObj kvs) h) = Inr Blocked)
          = (map_of ckvs ''finishReason'' = Some (JStr ''SAFETY''))" for h
    using assms(3) blocked
    by (simp add: on_success_def has_candidates_def split: sum.splits bool.splits)
  then have first: "(fst (call_gemini_api (Returns r) user_message w) = Inr Blocked)
           = (map_of ckvs ''finishReason'' = Some (JStr ''SAFETY''))"
    using assms(1,2) by (simp add: call_gemini_api_fst)
  have second: "call_gemini_api (Returns r) user_message w =
                  (Inr (Reply bot_text),
                   w\<lparr>conversation_history :=
                        conversation_history w @
                          [JObj [(''role'', JStr ''user''), (''parts'', JArr [JObj [(''text'', user_message)]])],
                           JObj [(''role'', JStr ''model''), (''parts'', JArr [JObj [(''text'', bot_text)]])]],
                     posted := posted w @
                          [payload (conversation_history w @
                             [JObj [(''role'', JStr ''user''), (''parts'', JArr [JObj [(''text'', user_message)]])]])]\<rparr>)"
    if "map_of ckvs ''finishReason'' \<noteq> Some (JStr ''SAFETY'')"
      and "map_of ckvs ''content'' = Some (JObj okvs)"
      and "map_of okvs ''parts'' = Some (JArr (JObj pkvs # ps))"
      and "map_of pkvs ''text'' = Some bot_text"
    using assms that blocked
    by (simp add: call_gemini_api_def on_success_def has_candidates_def
          has_content_parts_def extract_text_def history_entry_def Let_def)
  from first second show ?thesis by simp
qed

theorem other_finish_reason_is_reply_witness:
  "call_gemini_api
     (Returns \<lparr>status_code = 200,
               json_body = Some (JObj [(''candidates'',
                 JArr [JObj [(''content'', JObj [(''parts'', JArr [JObj [(''text'', JStr ''Greetings.'')]])]),
                             (''finishReason'', JStr ''MAX_TOKENS'')]])])\<rparr>)
     (JStr ''Hello'') \<lparr>conversation_history = [], posted = []\<rparr> =
   (Inr (Reply (JStr ''Greetings.'')),
    \<lparr>conversation_history =
       [JObj [(''role'', JStr ''user''), (''parts'', JArr [JObj [(''text'', JStr ''Hello'')]])],
        JObj [(''role'', JStr ''model''), (''parts'', JArr [JObj [(''text'', JStr ''Greetings.'')]])]],
     posted = [payload [JObj [(''role'', JStr ''user''), (''parts'', JArr [JObj [(''text'', JStr ''Hello'')]])]]]\<rparr>)"
proof -
  let ?c = "[(''content'', JObj [(''parts'', JArr [JObj [(''text'', JStr ''Greetings.'')]])]),
             (''finishReason'', JStr ''MAX_TOKENS'')]"
  let ?r = "\<lparr>status_code = 200, json_body = Some (JObj [(''candidates'', JArr [JObj ?c])])\<rparr>"
  have h1: "status_code ?r = 200" by simp
  have h2: "json_body ?r = Some (JObj [(''candidates'', JArr [JObj ?c])])" by simp
  have h3: "map_of [(''candidates'', JArr [JObj ?c])] ''candidates'' = Some (JArr (JObj ?c # []))"
    by simp
  have h4: "map_of ?c ''finishReason'' \<noteq> Some (JStr ''SAFETY'')
            \<and> map_of ?c ''content'' = Some (JObj [(''parts'', JArr [JObj [(''text'', JStr ''Greetings.'')]])])
            \<and> map_of [(''parts'', JArr [JObj [(''text'', JStr ''Greetings.'')]])] ''parts''
                = Some (JArr (JObj [(''text'', JStr ''Greetings.'')] # []))
            \<and> map_of [(''text'', JStr ''Greetings.'')] ''text'' = Some (JStr ''Greetings.'')"
    by simp
  show ?thesis
    using other_finish_reason_is_reply [OF h1 h2 h3,
        where okvs = "[(''parts'', JArr [JObj [(''text'', JStr ''Greetings.'')]])]"
          and pkvs = "[(''text'', JStr ''Greetings.'')]" and ps = "[]"
          and bot_text = "JStr ''Greetings.''" and user_message = "JStr ''Hello''"
          and w = "\<lparr>conversation_history = [], posted = []\<rparr>"] h4
    by simp
qed

end
